theory Spec2Isabelle
  imports Complex_Main "HOL-Library.Sublist"
begin

section \<open>Charging advisor on PVPC prices: the model of server.py\<close>

text \<open>
  Python floats are modelled as exact rationals: sums, quotients and comparisons are the
  mathematical ones, and no rounding error, NaN or overflow to infinity is represented.
  The only infinity of the model is the sentinel \<open>float('inf')\<close> that
  \<open>find_best_consecutive_hours\<close> starts its search with. Python integers are
  \<open>int\<close>, lists are lists, and every \<open>raise\<close> is a left injection.
\<close>

subsection \<open>Errors\<close>

text \<open>
  \<open>create_error\<close> wraps a message in an McpError; the constructors below are the
  messages of the source, with the interpolated value as argument. \<open>IndexError\<close>,
  \<open>KeyError\<close> and \<open>ValueError\<close> are Python's own exceptions: an index outside a
  list, a key that a dict lacks, \<open>min\<close> of an empty list.
\<close>

datatype error =
    NoPriceData string
  | ReeApiError int
  | NoPVPCData string
  | TimeoutError
  | ConnectionError string
  | NoPricesInRange
  | InvalidDateFormat
  | IndexError
  | KeyError
  | ValueError

subsection \<open>generate_hour_range\<close>

definition generate_hour_range :: "int \<Rightarrow> int \<Rightarrow> int list" where
  "generate_hour_range start end_hour =
     (if start \<le> end_hour then [start..end_hour]
      else [start..23] @ [0..end_hour])"

subsection \<open>find_best_consecutive_hours\<close>

text \<open>The running best of the search: \<open>float('inf')\<close> or a price.\<close>

datatype bound = Infinity | Finite rat

fun less_bound :: "rat \<Rightarrow> bound \<Rightarrow> bool" where
  "less_bound a Infinity = True"
| "less_bound a (Finite b) = (a < b)"

text \<open>Python's \<open>int(x)\<close> on a float truncates towards zero.\<close>

definition py_int :: "rat \<Rightarrow> int" where
  "py_int x = (if 0 \<le> x then \<lfloor>x\<rfloor> else \<lceil>x\<rceil>)"

definition charger_power_kw :: rat where
  "charger_power_kw = 74 / 10"

definition hours_needed :: "rat \<Rightarrow> int" where
  "hours_needed kwh = max 1 (py_int (kwh / charger_power_kw + 1 / 2))"

definition filter_prices :: "(int \<times> rat) list \<Rightarrow> int list \<Rightarrow> (int \<times> rat) list" where
  "filter_prices prices hour_range = filter (\<lambda>(h, p). h \<in> set hour_range) prices"

text \<open>The slice \<open>filtered_prices[i:i + hours_needed]\<close>.\<close>

definition window_at :: "(int \<times> rat) list \<Rightarrow> nat \<Rightarrow> nat \<Rightarrow> (int \<times> rat) list" where
  "window_at filtered n i = take n (drop i filtered)"

definition avg_price :: "(int \<times> rat) list \<Rightarrow> rat" where
  "avg_price window = sum_list (map snd window) / of_nat (length window)"

text \<open>One iteration of the loop, on the pair (best_avg_price, best_hours).\<close>

definition search_step ::
  "(int \<times> rat) list \<Rightarrow> nat \<Rightarrow> nat \<Rightarrow> bound \<times> int list \<Rightarrow> bound \<times> int list" where
  "search_step filtered n i st =
     (let window = window_at filtered n i;
          avg = avg_price window
      in if less_bound avg (fst st) then (Finite avg, map fst window) else st)"

text \<open>
  The number of hours after the clamp to the length of the filtered list, and the
  number of iterations \<open>len(filtered_prices) - hours_needed + 1\<close> of the loop.
\<close>

definition clamped_hours :: "(int \<times> rat) list \<Rightarrow> rat \<Rightarrow> int" where
  "clamped_hours filtered kwh =
     (if hours_needed kwh > int (length filtered) then int (length filtered)
      else hours_needed kwh)"

definition window_count :: "(int \<times> rat) list \<Rightarrow> rat \<Rightarrow> nat" where
  "window_count filtered kwh = nat (int (length filtered) - clamped_hours filtered kwh + 1)"

definition find_best_consecutive_hours ::
  "(int \<times> rat) list \<Rightarrow> int list \<Rightarrow> rat \<Rightarrow> error + (int list \<times> bound)" where
  "find_best_consecutive_hours prices hour_range kwh =
     (let filtered = filter_prices prices hour_range
      in if filtered = [] then Inl NoPricesInRange
         else
           let n = nat (clamped_hours filtered kwh);
               st = fold (search_step filtered n) [0 ..< window_count filtered kwh]
                      (Infinity, [])
           in Inr (snd st, fst st))"

subsection \<open>Number formatting\<close>

text \<open>Decimal digits of a natural number, most significant first.\<close>

fun show_nat :: "nat \<Rightarrow> string" where
  "show_nat n =
     (if n < 10 then [''0123456789'' ! n]
      else show_nat (n div 10) @ [''0123456789'' ! (n mod 10)])"

declare show_nat.simps [simp del]

text \<open>
  The format \<open>{n:02d}\<close> on a Python int: at least two characters, padded with zeros,
  the sign counting as a character.
\<close>

definition format_02d :: "int \<Rightarrow> string" where
  "format_02d n =
     (if n < 0 then ''-'' @ show_nat (nat (- n))
      else if n < 10 then ''0'' @ show_nat (nat n)
      else show_nat (nat n))"

definition format_hour :: "int \<Rightarrow> string" where
  "format_hour h = format_02d h @ '':00''"

text \<open>Rounding to the nearest integer, ties to the even one.\<close>

definition round_half_even :: "rat \<Rightarrow> int" where
  "round_half_even x =
     (let f = \<lfloor>x\<rfloor>; d = x - of_int f
      in if d < 1 / 2 then f
         else if 1 / 2 < d then f + 1
         else if even f then f else f + 1)"

text \<open>\<open>round(x, ndigits)\<close> on the exact value of \<open>x\<close>.\<close>

definition py_round :: "rat \<Rightarrow> nat \<Rightarrow> rat" where
  "py_round x ndigits = of_int (round_half_even (x * 10 ^ ndigits)) / 10 ^ ndigits"

text \<open>The fractional digits of the formats \<open>.2f\<close> and \<open>.4f\<close>, padded on the left.\<close>

definition pad_zeros :: "nat \<Rightarrow> string \<Rightarrow> string" where
  "pad_zeros w s = replicate (w - length s) (CHR ''0'') @ s"

definition format_fixed :: "nat \<Rightarrow> rat \<Rightarrow> string" where
  "format_fixed ndigits x =
     (let scaled = nat (round_half_even (\<bar>x\<bar> * 10 ^ ndigits))
      in (if x < 0 then ''-'' else [])
         @ show_nat (scaled div 10 ^ ndigits) @ ''.''
         @ pad_zeros ndigits (show_nat (scaled mod 10 ^ ndigits)))"

text \<open>The euro sign of the explanation, as its three UTF-8 bytes.\<close>

definition euro :: string where
  "euro = [CHR 0xE2, CHR 0x82, CHR 0xAC]"

subsection \<open>The upstream payload and get_pvpc_prices\<close>

text \<open>
  One element of \<open>attributes.values\<close>: the hour of its parsed timestamp and its value in
  EUR/MWh. One element of \<open>included\<close>: the fields the code reads, each absent or present.
\<close>

record reading =
  reading_hour :: int
  reading_value :: rat

record item =
  item_type :: "string option"
  item_id :: "string option"
  item_values :: "reading list option"

text \<open>
  What the HTTP request gives: a timeout, a request error with its text, or a response
  with its status code and the \<open>included\<close> field of its JSON body.
\<close>

datatype response =
    TimedOut
  | RequestFailed string
  | Response int "item list option"

text \<open>Python's \<open>needle in text\<close> on strings.\<close>

fun str_contains :: "string \<Rightarrow> string \<Rightarrow> bool" where
  "str_contains needle [] = (needle = [])"
| "str_contains needle (c # cs) = (prefix needle (c # cs) \<or> str_contains needle cs)"

definition is_pvpc :: "item \<Rightarrow> bool" where
  "is_pvpc it =
     (item_type it = Some ''PVPC''
      \<or> str_contains ''PVPC'' (case item_id it of None \<Rightarrow> [] | Some s \<Rightarrow> s))"

definition has_values :: "item \<Rightarrow> bool" where
  "has_values it = (case item_values it of None \<Rightarrow> False | Some vs \<Rightarrow> vs \<noteq> [])"

definition get_pvpc_prices :: "response \<Rightarrow> string \<Rightarrow> error + item" where
  "get_pvpc_prices resp date =
     (case resp of
        TimedOut \<Rightarrow> Inl TimeoutError
      | RequestFailed msg \<Rightarrow> Inl (ConnectionError msg)
      | Response status included \<Rightarrow>
          if status = 404 then Inl (NoPriceData date)
          else if status \<noteq> 200 then Inl (ReeApiError status)
          else
            (case included of
               None \<Rightarrow> Inl (NoPriceData date)
             | Some [] \<Rightarrow> Inl (NoPriceData date)
             | Some items \<Rightarrow>
                 (case List.find is_pvpc items of
                    None \<Rightarrow> Inl (NoPVPCData date)
                  | Some pvpc_data \<Rightarrow>
                      if has_values pvpc_data then Inr pvpc_data
                      else Inl (NoPVPCData date))))"

subsection \<open>parse_hourly_prices\<close>

text \<open>Python's \<open>list.sort\<close> is stable, as \<open>sort_key\<close> is.\<close>

definition parse_hourly_prices :: "item \<Rightarrow> error + (int \<times> rat) list" where
  "parse_hourly_prices data =
     (case item_values data of
        None \<Rightarrow> Inl KeyError
      | Some vs \<Rightarrow>
          Inr (sort_key fst (map (\<lambda>v. (reading_hour v, reading_value v / 1000)) vs)))"

subsection \<open>Date validation\<close>

text \<open>
  \<open>datetime.strptime(date, "%Y-%m-%d")\<close>, which raises ValueError where the model gives
  None. The library matches the regular expressions \<open>\d\d\d\d\<close> for the year,
  \<open>1[0-2]|0[1-9]|[1-9]\<close> for the month and \<open>3[0-1]|[1-2]\d|0[1-9]|[1-9]| [1-9]\<close> for
  the day, first alternative first, refuses text left over after the day, and then
  builds the date, which fails on year 0 and on a day the month does not have.
\<close>

definition is_digit :: "char \<Rightarrow> bool" where
  "is_digit c = (c \<in> set ''0123456789'')"

definition is_digit19 :: "char \<Rightarrow> bool" where
  "is_digit19 c = (c \<in> set ''123456789'')"

definition digit_val :: "char \<Rightarrow> int" where
  "digit_val c = of_char c - 48"

fun parse_month :: "string \<Rightarrow> (int \<times> string) option" where
  "parse_month (a # b # rest) =
     (if a = CHR ''1'' \<and> b \<in> set ''012'' then Some (10 + digit_val b, rest)
      else if a = CHR ''0'' \<and> is_digit19 b then Some (digit_val b, rest)
      else if is_digit19 a then Some (digit_val a, b # rest)
      else None)"
| "parse_month [a] = (if is_digit19 a then Some (digit_val a, []) else None)"
| "parse_month [] = None"

fun parse_day :: "string \<Rightarrow> (int \<times> string) option" where
  "parse_day (a # b # rest) =
     (if a = CHR ''3'' \<and> b \<in> set ''01'' then Some (30 + digit_val b, rest)
      else if a \<in> set ''12'' \<and> is_digit b then Some (10 * digit_val a + digit_val b, rest)
      else if a = CHR ''0'' \<and> is_digit19 b then Some (digit_val b, rest)
      else if is_digit19 a then Some (digit_val a, b # rest)
      else if a = CHR '' '' \<and> is_digit19 b then Some (digit_val b, rest)
      else None)"
| "parse_day [a] = (if is_digit19 a then Some (digit_val a, []) else None)"
| "parse_day [] = None"

definition is_leap :: "int \<Rightarrow> bool" where
  "is_leap y = (y mod 4 = 0 \<and> (y mod 100 \<noteq> 0 \<or> y mod 400 = 0))"

definition days_in_month :: "int \<Rightarrow> int \<Rightarrow> int" where
  "days_in_month y m =
     (if m = 2 then (if is_leap y then 29 else 28)
      else if m \<in> set [4, 6, 9, 11] then 30 else 31)"

definition strptime_ymd :: "string \<Rightarrow> (int \<times> int \<times> int) option" where
  "strptime_ymd s =
     (case s of
        y1 # y2 # y3 # y4 # sep1 # rest1 \<Rightarrow>
          if is_digit y1 \<and> is_digit y2 \<and> is_digit y3 \<and> is_digit y4 \<and> sep1 = CHR ''-'' then
            (case parse_month rest1 of
               Some (m, sep2 # rest2) \<Rightarrow>
                 if sep2 = CHR ''-'' then
                   (case parse_day rest2 of
                      Some (d, []) \<Rightarrow>
                        (let y = 1000 * digit_val y1 + 100 * digit_val y2
                                 + 10 * digit_val y3 + digit_val y4
                         in if 1 \<le> y \<and> d \<le> days_in_month y m then Some (y, m, d)
                            else None)
                    | _ \<Rightarrow> None)
                 else None
             | _ \<Rightarrow> None)
          else None
      | _ \<Rightarrow> None)"

subsection \<open>The two operations\<close>

text \<open>
  What the operations take from outside: the text of \<open>datetime.now().strftime("%Y-%m-%d")\<close>,
  the answer of the price source to the request for a date, and Python's conversion of a
  float to text in an f-string, which the model leaves open. An operation returns the
  dates it has requested from the price source, in order, beside its result.
\<close>

record world =
  now_date :: string
  fetch :: "string \<Rightarrow> response"
  float_str :: "rat \<Rightarrow> string"

record charging_recommendation =
  recommended_hours :: "string list"
  average_price_eur_kwh :: rat
  total_cost_eur :: rat
  explanation :: string
  query_date :: string

record hourly_price =
  hour :: string
  price_eur_kwh :: rat

record pvpc_data =
  date :: string
  hourly_prices :: "hourly_price list"
  min_price :: rat
  max_price :: rat
  average_price :: rat

text \<open>The date an operation works on: the given one, or today's when none is given.\<close>

definition effective_date :: "world \<Rightarrow> string option \<Rightarrow> string" where
  "effective_date w date_opt = (case date_opt of None \<Rightarrow> now_date w | Some d \<Rightarrow> d)"

text \<open>
  Lines 240 to 253: the explanation. \<open>formatted_hours[0]\<close> raises IndexError on an empty
  list, which the second branch would meet.
\<close>

definition explanation_text ::
  "world \<Rightarrow> int list \<Rightarrow> rat \<Rightarrow> rat \<Rightarrow> rat \<Rightarrow> error + string" where
  "explanation_text w best_hours kwh total_cost avg =
     (let formatted_hours = map format_hour best_hours
      in if length best_hours = 1 then
           Inr (''Recommended charging time: '' @ formatted_hours ! 0 @ ''. ''
                @ ''With '' @ float_str w kwh @ '' kWh consumption, cost will be ''
                @ format_fixed 2 total_cost @ euro @ '' ''
                @ ''(price: '' @ format_fixed 4 avg @ euro @ ''/kWh).'')
         else if best_hours = [] then Inl IndexError
         else
           (let start_time = formatted_hours ! 0;
                end_time = format_02d (last best_hours + 1) @ '':00''
            in Inr (''Recommended charging period: '' @ start_time @ '' to '' @ end_time @ ''. ''
                    @ ''With '' @ float_str w kwh @ '' kWh consumption, cost will be ''
                    @ format_fixed 2 total_cost @ euro @ '' ''
                    @ ''(average price: '' @ format_fixed 4 avg @ euro @ ''/kWh).'')))"

text \<open>
  The part of \<open>get_best_charging_hours\<close> after the fetch. The search leaves
  \<open>float('inf')\<close> as the average only together with an empty list of hours (lemma
  \<open>search_infinity_empty\<close>), where the explanation raises IndexError.
\<close>

definition recommend ::
  "world \<Rightarrow> string \<Rightarrow> item \<Rightarrow> int \<Rightarrow> int \<Rightarrow> rat \<Rightarrow> error + charging_recommendation" where
  "recommend w d data start_hour end_hour kwh =
     (case parse_hourly_prices data of
        Inl e \<Rightarrow> Inl e
      | Inr hourly \<Rightarrow>
          (case find_best_consecutive_hours hourly (generate_hour_range start_hour end_hour) kwh of
             Inl e \<Rightarrow> Inl e
           | Inr (best_hours, Infinity) \<Rightarrow> Inl IndexError
           | Inr (best_hours, Finite avg) \<Rightarrow>
               (let total_cost = kwh * avg
                in case explanation_text w best_hours kwh total_cost avg of
                     Inl e \<Rightarrow> Inl e
                   | Inr msg \<Rightarrow>
                       Inr \<lparr> recommended_hours = map format_hour best_hours,
                             average_price_eur_kwh = py_round avg 4,
                             total_cost_eur = py_round total_cost 2,
                             explanation = msg,
                             query_date = d \<rparr>)))"

definition get_best_charging_hours ::
  "world \<Rightarrow> string option \<Rightarrow> int \<Rightarrow> int \<Rightarrow> rat
     \<Rightarrow> string list \<times> (error + charging_recommendation)" where
  "get_best_charging_hours w date_opt start_hour end_hour kwh =
     (let d = effective_date w date_opt
      in case strptime_ymd d of
           None \<Rightarrow> ([], Inl InvalidDateFormat)
         | Some _ \<Rightarrow>
             ([d],
              case get_pvpc_prices (fetch w d) d of
                Inl e \<Rightarrow> Inl e
              | Inr data \<Rightarrow> recommend w d data start_hour end_hour kwh))"





subsection \<open>Concrete inputs\<close>


text \<open>
  The day of the scenario: readings in the order 22, 23, 0, ..., 7 with values in EUR/MWh,
  and a world whose price source answers every request with that day.
\<close>

definition scenario_item :: item where
  "scenario_item =
     \<lparr> item_type = Some ''PVPC'', item_id = Some ''1001'',
       item_values = Some
         [\<lparr> reading_hour = 22, reading_value = 100 \<rparr>,
          \<lparr> reading_hour = 23, reading_value = 100 \<rparr>,
          \<lparr> reading_hour = 0, reading_value = 300 \<rparr>,
          \<lparr> reading_hour = 1, reading_value = 50 \<rparr>,
          \<lparr> reading_hour = 2, reading_value = 50 \<rparr>,
          \<lparr> reading_hour = 3, reading_value = 50 \<rparr>,
          \<lparr> reading_hour = 4, reading_value = 400 \<rparr>,
          \<lparr> reading_hour = 5, reading_value = 400 \<rparr>,
          \<lparr> reading_hour = 6, reading_value = 400 \<rparr>,
          \<lparr> reading_hour = 7, reading_value = 400 \<rparr>] \<rparr>"

definition scenario_unsorted :: "(int \<times> rat) list" where
  "scenario_unsorted =
     [(22, 1 / 10), (23, 1 / 10), (0, 3 / 10), (1, 1 / 20), (2, 1 / 20), (3, 1 / 20),
      (4, 4 / 10), (5, 4 / 10), (6, 4 / 10), (7, 4 / 10)]"

definition scenario_series :: "(int \<times> rat) list" where
  "scenario_series =
     [(0, 3 / 10), (1, 1 / 20), (2, 1 / 20), (3, 1 / 20),
      (4, 4 / 10), (5, 4 / 10), (6, 4 / 10), (7, 4 / 10), (22, 1 / 10), (23, 1 / 10)]"

definition world_of :: "item \<Rightarrow> world" where
  "world_of it =
     \<lparr> now_date = ''2024-01-15'',
       fetch = (\<lambda>d. Response 200 (Some [it])),
       float_str = (\<lambda>x. if x = 148 / 10 then ''14.8'' else ''10.0'') \<rparr>"

text \<open>An evening whose last two hours are the cheapest, and a day with midday prices only.\<close>

definition evening_item :: item where
  "evening_item =
     \<lparr> item_type = Some ''PVPC'', item_id = Some ''1001'',
       item_values = Some
         [\<lparr> reading_hour = 21, reading_value = 200 \<rparr>,
          \<lparr> reading_hour = 22, reading_value = 100 \<rparr>,
          \<lparr> reading_hour = 23, reading_value = 100 \<rparr>] \<rparr>"

definition midday_item :: item where
  "midday_item =
     \<lparr> item_type = Some ''PVPC'', item_id = Some ''1001'',
       item_values = Some
         [\<lparr> reading_hour = 10, reading_value = 120 \<rparr>,
          \<lparr> reading_hour = 11, reading_value = 80 \<rparr>] \<rparr>"


subsection \<open>The specification's wording, for comparison\<close>



section \<open>Properties\<close>

subsection \<open>The search loop\<close>

lemma search_fold_argmin:
  "0 < k \<Longrightarrow>
   \<exists>i<k. fold (search_step f n) [0 ..< k] (Infinity, []) =
            (Finite (avg_price (window_at f n i)), map fst (window_at f n i))
        \<and> (\<forall>j<k. avg_price (window_at f n i) \<le> avg_price (window_at f n j))
        \<and> (\<forall>j<i. avg_price (window_at f n i) < avg_price (window_at f n j))"
proof (induction k)
  case 0
  then show ?case by simp
next
  case (Suc k)
  show ?case
  proof (cases "k = 0")
    case True
    then show ?thesis by (simp add: search_step_def Let_def)
  next
    case False
    then obtain i where i: "i < k"
      and st: "fold (search_step f n) [0 ..< k] (Infinity, []) =
            (Finite (avg_price (window_at f n i)), map fst (window_at f n i))"
      and mn: "\<forall>j<k. avg_price (window_at f n i) \<le> avg_price (window_at f n j)"
      and fs: "\<forall>j<i. avg_price (window_at f n i) < avg_price (window_at f n j)"
      using Suc.IH by auto
    show ?thesis
    proof (cases "avg_price (window_at f n k) < avg_price (window_at f n i)")
      case True
      have "fold (search_step f n) [0 ..< Suc k] (Infinity, []) =
            (Finite (avg_price (window_at f n k)), map fst (window_at f n k))"
        using True st by (simp add: search_step_def Let_def)
      moreover have "\<forall>j<Suc k. avg_price (window_at f n k) \<le> avg_price (window_at f n j)"
        using True mn by (auto simp: less_Suc_eq intro: less_imp_le order.strict_trans2)
      moreover have "\<forall>j<k. avg_price (window_at f n k) < avg_price (window_at f n j)"
        using True mn by (auto intro: order.strict_trans2)
      ultimately show ?thesis by blast
    next
      case ge: False
      have "fold (search_step f n) [0 ..< Suc k] (Infinity, []) =
            (Finite (avg_price (window_at f n i)), map fst (window_at f n i))"
        using ge st by (simp add: search_step_def Let_def)
      moreover have "\<forall>j<Suc k. avg_price (window_at f n i) \<le> avg_price (window_at f n j)"
        using ge mn by (auto simp: less_Suc_eq)
      ultimately show ?thesis using i fs by (metis less_Suc_eq)
    qed
  qed
qed











subsection \<open>Claims on the window search\<close>








subsection \<open>Claims on the hour range\<close>

text \<open>
  C4. For start and end both in 0..23: when start <= end the range is the list of the
  integers from start to end, ascending, each once; when start > end it is start..23
  followed by 0..end, of length (24 - start) + (end + 1); in both cases start and end
  are members and the range is not empty.
\<close>

theorem generate_hour_range_spec:
  assumes "0 \<le> start" "start \<le> 23" "0 \<le> end_hour" "end_hour \<le> 23"
  shows "(start \<le> end_hour \<longrightarrow>
            generate_hour_range start end_hour = [start..end_hour]
          \<and> set (generate_hour_range start end_hour) = {start..end_hour}
          \<and> sorted (generate_hour_range start end_hour)
          \<and> distinct (generate_hour_range start end_hour))
       \<and> (end_hour < start \<longrightarrow>
            generate_hour_range start end_hour = [start..23] @ [0..end_hour]
          \<and> int (length (generate_hour_range start end_hour)) = (24 - start) + (end_hour + 1))
       \<and> start \<in> set (generate_hour_range start end_hour)
       \<and> end_hour \<in> set (generate_hour_range start end_hour)
       \<and> generate_hour_range start end_hour \<noteq> []"
  using assms by (auto simp: generate_hour_range_def)

theorem generate_hour_range_spec_witness:
  "(0 :: int) \<le> 22 \<and> (22 :: int) \<le> 23 \<and> (0 :: int) \<le> 7 \<and> (7 :: int) \<le> 23
   \<and> int (length (generate_hour_range 22 7)) = 10
   \<and> 22 \<in> set (generate_hour_range 22 7) \<and> 7 \<in> set (generate_hour_range 22 7)"
  using generate_hour_range_spec [of 22 7] by simp

subsection \<open>The scenario, evaluated\<close>

lemma scenario_parse: "parse_hourly_prices scenario_item = Inr scenario_series"
  by (simp add: parse_hourly_prices_def scenario_item_def scenario_series_def)

lemma floor_5_2: "\<lfloor>5 / 2 :: rat\<rfloor> = 2"
  by (rule floor_unique) simp_all

lemma scenario_hours: "hours_needed (74 / 5) = 2"
  by (simp add: hours_needed_def py_int_def charger_power_kw_def floor_5_2)

lemma scenario_filter:
  "filter_prices scenario_series (generate_hour_range 22 7) = scenario_series"
  by (simp add: filter_prices_def generate_hour_range_def scenario_series_def)

lemma scenario_filter_unsorted:
  "filter_prices scenario_unsorted (generate_hour_range 22 7) = scenario_unsorted"
  by (simp add: filter_prices_def generate_hour_range_def scenario_unsorted_def)

lemma upt_9: "[0 ..< 9] = [0, 1, 2, 3, 4, 5, 6, 7, 8]"
  by (simp add: upt_rec)

lemma scenario_best:
  "find_best_consecutive_hours scenario_series (generate_hour_range 22 7) (74 / 5) =
     Inr ([1, 2], Finite (1 / 20))"
  unfolding find_best_consecutive_hours_def scenario_filter
  by (simp add: scenario_hours clamped_hours_def window_count_def scenario_series_def upt_9
      search_step_def window_at_def avg_price_def Let_def)

lemma scenario_best_unsorted:
  "find_best_consecutive_hours scenario_unsorted (generate_hour_range 22 7) (74 / 5) =
     Inr ([1, 2], Finite (1 / 20))"
  unfolding find_best_consecutive_hours_def scenario_filter_unsorted
  by (simp add: scenario_hours clamped_hours_def window_count_def scenario_unsorted_def upt_9
      search_step_def window_at_def avg_price_def Let_def)

lemma date_2024_01_15: "strptime_ymd ''2024-01-15'' = Some (2024, 1, 15)"
  by (simp add: strptime_ymd_def is_digit_def is_digit19_def digit_val_def days_in_month_def
      is_leap_def)

lemma fetch_world_of: "fetch (world_of it) d = Response 200 (Some [it])"
  by (simp add: world_of_def)

lemma scenario_fetch:
  "get_pvpc_prices (Response 200 (Some [scenario_item])) d = Inr scenario_item"
  by (simp add: get_pvpc_prices_def is_pvpc_def has_values_def scenario_item_def)

lemma fixed_cost: "format_fixed 2 (37 / 50) = ''0.74''"
  by (simp add: format_fixed_def round_half_even_def show_nat.simps pad_zeros_def Let_def)

lemma fixed_price: "format_fixed 4 (1 / 20) = ''0.0500''"
  by (simp add: format_fixed_def round_half_even_def show_nat.simps pad_zeros_def Let_def)

lemma round_price: "py_round (1 / 20) 4 = 1 / 20"
  by (simp add: py_round_def round_half_even_def Let_def)

lemma round_cost: "py_round (37 / 50) 2 = 37 / 50"
  by (simp add: py_round_def round_half_even_def Let_def)

lemma hours_1_2: "map format_hour [1, 2] = [''01:00'', ''02:00'']"
  by (simp add: format_hour_def format_02d_def show_nat.simps)

lemma format_3: "format_02d 3 = ''03''"
  by (simp add: format_02d_def show_nat.simps)

lemma scenario_explanation:
  "explanation_text w [1, 2] kwh (37 / 50) (1 / 20) =
     Inr (''Recommended charging period: 01:00 to 03:00. ''
          @ ''With '' @ float_str w kwh @ '' kWh consumption, cost will be 0.74'' @ euro
          @ '' (average price: 0.0500'' @ euro @ ''/kWh).'')"
  unfolding explanation_text_def fixed_cost fixed_price hours_1_2
  by (simp add: format_3)

lemma scenario_recommend:
  "recommend w d scenario_item 22 7 (74 / 5) =
     Inr \<lparr> recommended_hours = [''01:00'', ''02:00''],
           average_price_eur_kwh = 1 / 20,
           total_cost_eur = 37 / 50,
           explanation = ''Recommended charging period: 01:00 to 03:00. ''
              @ ''With '' @ float_str w (74 / 5) @ '' kWh consumption, cost will be 0.74'' @ euro
              @ '' (average price: 0.0500'' @ euro @ ''/kWh).'',
           query_date = d \<rparr>"
proof -
  have c: "(74 / 5 :: rat) * (1 / 20) = 37 / 50" by simp
  show ?thesis
    by (simp only: recommend_def scenario_parse scenario_best sum.case prod.case bound.case
        Let_def c scenario_explanation round_price round_cost hours_1_2)
qed

lemma scenario_run:
  "get_best_charging_hours (world_of scenario_item) (Some ''2024-01-15'') 22 7 (74 / 5) =
    ([''2024-01-15''],
     Inr \<lparr> recommended_hours = [''01:00'', ''02:00''],
           average_price_eur_kwh = 1 / 20,
           total_cost_eur = 37 / 50,
           explanation = ''Recommended charging period: 01:00 to 03:00. ''
              @ ''With 14.8 kWh consumption, cost will be 0.74'' @ euro
              @ '' (average price: 0.0500'' @ euro @ ''/kWh).'',
           query_date = ''2024-01-15'' \<rparr>)"
proof -
  have s: "float_str (world_of scenario_item) (74 / 5) = ''14.8''"
    by (simp add: world_of_def)
  show ?thesis
    unfolding get_best_charging_hours_def effective_date_def
    by (simp add: date_2024_01_15 fetch_world_of scenario_fetch scenario_recommend s Let_def)
qed

subsection \<open>Claims on the scenario\<close>

text \<open>
  C3, as the code has it. On the scenario day with start_hour = 22, end_hour = 7 and
  kwh = 14.8 the required length is 2; the parser sorts the readings by hour; the best
  window is hours [1, 2] at mean 0.05, whether the search runs on the sorted series or
  on the readings in the order 22, 23, 0, ..., 7; and the total cost is
  14.8 * 0.05 = 0.74, which is what get_best_charging_hours reports.
\<close>

theorem scenario_best_window:
  "hours_needed (148 / 10) = 2
   \<and> parse_hourly_prices scenario_item = Inr scenario_series
   \<and> find_best_consecutive_hours scenario_series (generate_hour_range 22 7) (148 / 10) =
       Inr ([1, 2], Finite (5 / 100))
   \<and> find_best_consecutive_hours scenario_unsorted (generate_hour_range 22 7) (148 / 10) =
       Inr ([1, 2], Finite (5 / 100))
   \<and> (148 / 10 :: rat) * (5 / 100) = 74 / 100
   \<and> get_best_charging_hours (world_of scenario_item) (Some ''2024-01-15'') 22 7 (148 / 10) =
       ([''2024-01-15''],
        Inr \<lparr> recommended_hours = [''01:00'', ''02:00''],
              average_price_eur_kwh = 5 / 100,
              total_cost_eur = 74 / 100,
              explanation = ''Recommended charging period: 01:00 to 03:00. ''
                 @ ''With 14.8 kWh consumption, cost will be 0.74'' @ euro
                 @ '' (average price: 0.0500'' @ euro @ ''/kWh).'',
              query_date = ''2024-01-15'' \<rparr>)"
proof -
  have k: "(148 / 10 :: rat) = 74 / 5" and p: "(5 / 100 :: rat) = 1 / 20"
    and c: "(74 / 100 :: rat) = 37 / 50"
    by simp_all
  show ?thesis
    unfolding k p c
    using scenario_hours scenario_parse scenario_best scenario_best_unsorted scenario_run
    by simp
qed

text \<open>
  C3 as stated fails: the search does not return hours [0, 1] at mean 0.05; the window
  of hours 0 and 1 has mean (0.30 + 0.05) / 2 = 0.175.
\<close>

theorem scenario_window_not_0_1:
  "find_best_consecutive_hours scenario_series (generate_hour_range 22 7) (148 / 10)
     \<noteq> Inr ([0, 1], Finite (5 / 100))
   \<and> avg_price (take 2 (drop 0 scenario_series)) = 175 / 1000"
proof -
  have k: "(148 / 10 :: rat) = 74 / 5" by simp
  have a: "avg_price (take 2 (drop 0 scenario_series)) = 175 / 1000"
    by (simp add: avg_price_def scenario_series_def)
  show ?thesis unfolding k scenario_best using a by simp
qed

subsection \<open>Claims on errors\<close>

text \<open>
  C8. When no price of the series lies in the hour range, find_best_consecutive_hours
  fails with the error "No prices available in specified hour range", and
  get_best_charging_hours, once the date is valid and the day's prices are fetched and
  parsed, returns that same error.
\<close>

theorem empty_range_error_propagates:
  "(filter_prices prices hour_range = [] \<longrightarrow>
      find_best_consecutive_hours prices hour_range kwh = Inl NoPricesInRange)
   \<and> (strptime_ymd (effective_date w date_opt) \<noteq> None
      \<and> get_pvpc_prices (fetch w (effective_date w date_opt)) (effective_date w date_opt)
          = Inr data
      \<and> parse_hourly_prices data = Inr series
      \<and> filter_prices series (generate_hour_range start_hour end_hour) = [] \<longrightarrow>
      get_best_charging_hours w date_opt start_hour end_hour kwh =
        ([effective_date w date_opt], Inl NoPricesInRange))"
  by (auto simp: find_best_consecutive_hours_def get_best_charging_hours_def recommend_def
      Let_def)

theorem empty_range_error_propagates_witness:
  "filter_prices [(10, 3 / 25), (11, 2 / 25)] (generate_hour_range 22 7) = []
   \<and> find_best_consecutive_hours [(10, 3 / 25), (11, 2 / 25)] (generate_hour_range 22 7) 10
       = Inl NoPricesInRange
   \<and> get_best_charging_hours (world_of midday_item) None 22 7 10 =
       ([''2024-01-15''], Inl NoPricesInRange)"
proof -
  have e: "effective_date (world_of midday_item) None = ''2024-01-15''"
    by (simp add: effective_date_def world_of_def)
  have d: "strptime_ymd (effective_date (world_of midday_item) None) \<noteq> None"
    unfolding e by (simp add: date_2024_01_15)
  have g: "get_pvpc_prices (fetch (world_of midday_item) (effective_date (world_of midday_item) None))
             (effective_date (world_of midday_item) None) = Inr midday_item"
    unfolding e fetch_world_of
    by (simp add: get_pvpc_prices_def is_pvpc_def has_values_def midday_item_def)
  have p: "parse_hourly_prices midday_item = Inr [(10, 3 / 25), (11, 2 / 25)]"
    by (simp add: parse_hourly_prices_def midday_item_def)
  have f: "filter_prices [(10, 3 / 25), (11, 2 / 25)] (generate_hour_range 22 7) = []"
    by (simp add: filter_prices_def generate_hour_range_def)
  show ?thesis
    using empty_range_error_propagates
      [of "[(10, 3 / 25), (11, 2 / 25)]" "generate_hour_range 22 7" 10
          "world_of midday_item" None midday_item "[(10, 3 / 25), (11, 2 / 25)]" 22 7]
      d g p f
    unfolding e by simp
qed

subsection \<open>Selection of the PVPC entry\<close>




subsection \<open>Claims on the payload\<close>




subsection \<open>Date validation and the fetch\<close>







lemma accepted_date_best:
  "strptime_ymd d \<noteq> None \<Longrightarrow>
   get_best_charging_hours w (Some d) start_hour end_hour kwh =
     ([d], case get_pvpc_prices (fetch w d) d of
             Inl e \<Rightarrow> Inl e
           | Inr data \<Rightarrow> recommend w d data start_hour end_hour kwh)"
  by (auto simp: get_best_charging_hours_def effective_date_def)





subsection \<open>Claims on the date\<close>




subsection \<open>The successful run of get_best_charging_hours\<close>

lemma search_infinity_empty:
  "fst (fold (search_step f n) [0 ..< k] (Infinity, [])) = Infinity \<Longrightarrow>
   snd (fold (search_step f n) [0 ..< k] (Infinity, [])) = []"
proof (cases "k = 0")
  case True
  then show ?thesis by simp
next
  case False
  then have "0 < k" by simp
  from search_fold_argmin [OF this, of f n]
  obtain i where "fold (search_step f n) [0 ..< k] (Infinity, []) =
      (Finite (avg_price (window_at f n i)), map fst (window_at f n i))"
    by blast
  moreover assume "fst (fold (search_step f n) [0 ..< k] (Infinity, [])) = Infinity"
  ultimately show ?thesis by simp
qed

lemma recommend_success:
  assumes "recommend w d data start_hour end_hour kwh = Inr r"
  shows "\<exists>series hs avg msg.
      parse_hourly_prices data = Inr series
    \<and> find_best_consecutive_hours series (generate_hour_range start_hour end_hour) kwh
        = Inr (hs, Finite avg)
    \<and> explanation_text w hs kwh (kwh * avg) avg = Inr msg
    \<and> r = \<lparr> recommended_hours = map format_hour hs,
             average_price_eur_kwh = py_round avg 4,
             total_cost_eur = py_round (kwh * avg) 2,
             explanation = msg,
             query_date = d \<rparr>"
proof (cases "parse_hourly_prices data")
  case (Inl e)
  then show ?thesis using assms by (simp add: recommend_def)
next
  case (Inr series)
  show ?thesis
  proof (cases "find_best_consecutive_hours series (generate_hour_range start_hour end_hour) kwh")
    case (Inl e)
    then show ?thesis using assms Inr by (simp add: recommend_def)
  next
    case found: (Inr res)
    obtain hs b where res: "res = (hs, b)" by (cases res)
    show ?thesis
    proof (cases b)
      case Infinity
      then show ?thesis using assms Inr found res by (simp add: recommend_def)
    next
      case (Finite avg)
      show ?thesis
      proof (cases "explanation_text w hs kwh (kwh * avg) avg")
        case (Inl e)
        then show ?thesis using assms Inr found res Finite by (simp add: recommend_def Let_def)
      next
        case msg: (Inr msg)
        then have "r = \<lparr> recommended_hours = map format_hour hs,
             average_price_eur_kwh = py_round avg 4,
             total_cost_eur = py_round (kwh * avg) 2,
             explanation = msg,
             query_date = d \<rparr>"
          using assms Inr found res Finite by (simp add: recommend_def Let_def)
        then show ?thesis using Inr found res Finite msg by blast
      qed
    qed
  qed
qed

lemma best_success:
  assumes "get_best_charging_hours w date_opt start_hour end_hour kwh = (reqs, Inr r)"
  shows "\<exists>data. get_pvpc_prices (fetch w (effective_date w date_opt)) (effective_date w date_opt)
                  = Inr data
             \<and> recommend w (effective_date w date_opt) data start_hour end_hour kwh = Inr r"
  using assms
  by (auto simp: get_best_charging_hours_def Let_def split: option.splits sum.splits)

lemma explanation_single:
  "explanation_text w [h] kwh total_cost avg =
     Inr (''Recommended charging time: '' @ format_hour h @ ''. With '' @ float_str w kwh
          @ '' kWh consumption, cost will be '' @ format_fixed 2 total_cost @ euro
          @ '' (price: '' @ format_fixed 4 avg @ euro @ ''/kWh).'')"
  by (simp add: explanation_text_def)

lemma explanation_period:
  assumes "length hs \<noteq> 1" "hs \<noteq> []"
  shows "explanation_text w hs kwh total_cost avg =
     Inr (''Recommended charging period: '' @ format_hour (hd hs) @ '' to ''
          @ format_02d (last hs + 1) @ '':00. With '' @ float_str w kwh
          @ '' kWh consumption, cost will be '' @ format_fixed 2 total_cost @ euro
          @ '' (average price: '' @ format_fixed 4 avg @ euro @ ''/kWh).'')"
proof -
  have "map format_hour hs ! 0 = format_hour (hd hs)"
    using assms(2) by (cases hs) simp_all
  then show ?thesis using assms by (simp add: explanation_text_def Let_def)
qed

lemma explanation_empty: "explanation_text w [] kwh total_cost avg = Inl IndexError"
  by (simp add: explanation_text_def)

lemma format_24: "format_02d 24 = ''24''"
  by (simp add: format_02d_def show_nat.simps)

subsection \<open>The evening run, evaluated\<close>

lemma evening_parse:
  "parse_hourly_prices evening_item = Inr [(21, 1 / 5), (22, 1 / 10), (23, 1 / 10)]"
  by (simp add: parse_hourly_prices_def evening_item_def)

lemma evening_fetch:
  "get_pvpc_prices (Response 200 (Some [evening_item])) d = Inr evening_item"
  by (simp add: get_pvpc_prices_def is_pvpc_def has_values_def evening_item_def)

lemma evening_filter:
  "filter_prices [(21, 1 / 5), (22, 1 / 10), (23, 1 / 10)] (generate_hour_range 21 23) =
     [(21, 1 / 5), (22, 1 / 10), (23, 1 / 10)]"
  by (simp add: filter_prices_def generate_hour_range_def)

lemma upt_2: "[0 ..< 2] = [0, 1]"
  by (simp add: upt_rec)

lemma evening_best:
  "find_best_consecutive_hours [(21, 1 / 5), (22, 1 / 10), (23, 1 / 10)]
     (generate_hour_range 21 23) (74 / 5) = Inr ([22, 23], Finite (1 / 10))"
  unfolding find_best_consecutive_hours_def evening_filter
  by (simp add: scenario_hours clamped_hours_def window_count_def upt_2
      search_step_def window_at_def avg_price_def Let_def)

lemma evening_cost: "format_fixed 2 (37 / 25) = ''1.48''"
  by (simp add: format_fixed_def round_half_even_def show_nat.simps pad_zeros_def Let_def)

lemma evening_price: "format_fixed 4 (1 / 10) = ''0.1000''"
  by (simp add: format_fixed_def round_half_even_def show_nat.simps pad_zeros_def Let_def)

lemma evening_rounds: "py_round (1 / 10) 4 = 1 / 10" "py_round (37 / 25) 2 = 37 / 25"
  by (simp_all add: py_round_def round_half_even_def Let_def)

lemma hours_22_23: "map format_hour [22, 23] = [''22:00'', ''23:00'']"
  by (simp add: format_hour_def format_02d_def show_nat.simps)

lemma evening_explanation:
  "explanation_text w [22, 23] kwh (37 / 25) (1 / 10) =
     Inr (''Recommended charging period: 22:00 to 24:00. ''
          @ ''With '' @ float_str w kwh @ '' kWh consumption, cost will be 1.48'' @ euro
          @ '' (average price: 0.1000'' @ euro @ ''/kWh).'')"
  unfolding explanation_text_def evening_cost evening_price hours_22_23
  by (simp add: format_24)

lemma evening_recommend:
  "recommend w d evening_item 21 23 (74 / 5) =
     Inr \<lparr> recommended_hours = [''22:00'', ''23:00''],
           average_price_eur_kwh = 1 / 10,
           total_cost_eur = 37 / 25,
           explanation = ''Recommended charging period: 22:00 to 24:00. ''
              @ ''With '' @ float_str w (74 / 5) @ '' kWh consumption, cost will be 1.48'' @ euro
              @ '' (average price: 0.1000'' @ euro @ ''/kWh).'',
           query_date = d \<rparr>"
proof -
  have c: "(74 / 5 :: rat) * (1 / 10) = 37 / 25" by simp
  show ?thesis
    by (simp only: recommend_def evening_parse evening_best sum.case prod.case bound.case
        Let_def c evening_explanation evening_rounds hours_22_23)
qed

lemma evening_run:
  "get_best_charging_hours (world_of evening_item) (Some ''2024-01-15'') 21 23 (74 / 5) =
    ([''2024-01-15''],
     Inr \<lparr> recommended_hours = [''22:00'', ''23:00''],
           average_price_eur_kwh = 1 / 10,
           total_cost_eur = 37 / 25,
           explanation = ''Recommended charging period: 22:00 to 24:00. ''
              @ ''With 14.8 kWh consumption, cost will be 1.48'' @ euro
              @ '' (average price: 0.1000'' @ euro @ ''/kWh).'',
           query_date = ''2024-01-15'' \<rparr>)"
proof -
  have s: "float_str (world_of evening_item) (74 / 5) = ''14.8''"
    by (simp add: world_of_def)
  have ok: "strptime_ymd ''2024-01-15'' \<noteq> None" by (simp add: date_2024_01_15)
  show ?thesis
    by (simp add: accepted_date_best [OF ok] fetch_world_of evening_fetch evening_recommend s)
qed

subsection \<open>Claims on the explanation\<close>

text \<open>
  C6. Every result of get_best_charging_hours comes from a non-empty list of best hours.
  When that list has one hour the explanation is the phrase "Recommended charging
  time: HH:00. ..."; otherwise it is "Recommended charging period: HH:00 to EE:00. ..."
  where EE is the last selected hour plus one, formatted without reduction modulo 24,
  so that a window ending at hour 23 is shown as ending at 24:00.
\<close>

theorem explanation_end_boundary:
  assumes "get_best_charging_hours w date_opt start_hour end_hour kwh = (reqs, Inr r)"
  shows "\<exists>data series hs avg.
      get_pvpc_prices (fetch w (effective_date w date_opt)) (effective_date w date_opt) = Inr data
    \<and> parse_hourly_prices data = Inr series
    \<and> find_best_consecutive_hours series (generate_hour_range start_hour end_hour) kwh
        = Inr (hs, Finite avg)
    \<and> hs \<noteq> []
    \<and> recommended_hours r = map format_hour hs
    \<and> (length hs = 1 \<longrightarrow>
         explanation r =
           ''Recommended charging time: '' @ format_hour (hd hs) @ ''. With '' @ float_str w kwh
           @ '' kWh consumption, cost will be '' @ format_fixed 2 (kwh * avg) @ euro
           @ '' (price: '' @ format_fixed 4 avg @ euro @ ''/kWh).'')
    \<and> (length hs \<noteq> 1 \<longrightarrow>
         explanation r =
           ''Recommended charging period: '' @ format_hour (hd hs) @ '' to ''
           @ format_02d (last hs + 1) @ '':00. With '' @ float_str w kwh
           @ '' kWh consumption, cost will be '' @ format_fixed 2 (kwh * avg) @ euro
           @ '' (average price: '' @ format_fixed 4 avg @ euro @ ''/kWh).'')
    \<and> (length hs \<noteq> 1 \<and> last hs = 23 \<longrightarrow>
         prefix (''Recommended charging period: '' @ format_hour (hd hs) @ '' to 24:00. '')
           (explanation r))"
proof -
  obtain data where data:
      "get_pvpc_prices (fetch w (effective_date w date_opt)) (effective_date w date_opt) = Inr data"
    and rec: "recommend w (effective_date w date_opt) data start_hour end_hour kwh = Inr r"
    using best_success [OF assms] by blast
  obtain series hs avg msg where series: "parse_hourly_prices data = Inr series"
    and best: "find_best_consecutive_hours series (generate_hour_range start_hour end_hour) kwh
        = Inr (hs, Finite avg)"
    and msg: "explanation_text w hs kwh (kwh * avg) avg = Inr msg"
    and r: "r = \<lparr> recommended_hours = map format_hour hs,
             average_price_eur_kwh = py_round avg 4,
             total_cost_eur = py_round (kwh * avg) 2,
             explanation = msg,
             query_date = effective_date w date_opt \<rparr>"
    using recommend_success [OF rec] by blast
  have ne: "hs \<noteq> []" using msg explanation_empty [of w kwh "kwh * avg" avg] by auto
  have hours: "recommended_hours r = map format_hour hs" using r by simp
  have single: "length hs = 1 \<longrightarrow>
         explanation r =
           ''Recommended charging time: '' @ format_hour (hd hs) @ ''. With '' @ float_str w kwh
           @ '' kWh consumption, cost will be '' @ format_fixed 2 (kwh * avg) @ euro
           @ '' (price: '' @ format_fixed 4 avg @ euro @ ''/kWh).''"
  proof
    assume "length hs = 1"
    then obtain h where h: "hs = [h]" by (cases hs) auto
    have "explanation r = msg" using r by simp
    then show "explanation r =
           ''Recommended charging time: '' @ format_hour (hd hs) @ ''. With '' @ float_str w kwh
           @ '' kWh consumption, cost will be '' @ format_fixed 2 (kwh * avg) @ euro
           @ '' (price: '' @ format_fixed 4 avg @ euro @ ''/kWh).''"
      using msg unfolding h explanation_single by simp
  qed
  have period: "length hs \<noteq> 1 \<longrightarrow>
         explanation r =
           ''Recommended charging period: '' @ format_hour (hd hs) @ '' to ''
           @ format_02d (last hs + 1) @ '':00. With '' @ float_str w kwh
           @ '' kWh consumption, cost will be '' @ format_fixed 2 (kwh * avg) @ euro
           @ '' (average price: '' @ format_fixed 4 avg @ euro @ ''/kWh).''"
  proof
    assume l: "length hs \<noteq> 1"
    have "explanation r = msg" using r by simp
    then show "explanation r =
           ''Recommended charging period: '' @ format_hour (hd hs) @ '' to ''
           @ format_02d (last hs + 1) @ '':00. With '' @ float_str w kwh
           @ '' kWh consumption, cost will be '' @ format_fixed 2 (kwh * avg) @ euro
           @ '' (average price: '' @ format_fixed 4 avg @ euro @ ''/kWh).''"
      using msg unfolding explanation_period [OF l ne] by simp
  qed
  have midnight: "length hs \<noteq> 1 \<and> last hs = 23 \<longrightarrow>
         prefix (''Recommended charging period: '' @ format_hour (hd hs) @ '' to 24:00. '')
           (explanation r)"
  proof
    assume a: "length hs \<noteq> 1 \<and> last hs = 23"
    then have "explanation r =
           (''Recommended charging period: '' @ format_hour (hd hs) @ '' to 24:00. '')
           @ (''With '' @ float_str w kwh
           @ '' kWh consumption, cost will be '' @ format_fixed 2 (kwh * avg) @ euro
           @ '' (average price: '' @ format_fixed 4 avg @ euro @ ''/kWh).'')"
      using period format_24 by simp
    then show "prefix (''Recommended charging period: '' @ format_hour (hd hs) @ '' to 24:00. '')
           (explanation r)"
      by (simp only: prefixI)
  qed
  show ?thesis
    using data series best ne hours single period midnight by blast
qed

theorem explanation_end_boundary_witness:
  "get_best_charging_hours (world_of evening_item) (Some ''2024-01-15'') 21 23 (74 / 5) =
    ([''2024-01-15''],
     Inr \<lparr> recommended_hours = [''22:00'', ''23:00''],
           average_price_eur_kwh = 1 / 10,
           total_cost_eur = 37 / 25,
           explanation = ''Recommended charging period: 22:00 to 24:00. ''
              @ ''With 14.8 kWh consumption, cost will be 1.48'' @ euro
              @ '' (average price: 0.1000'' @ euro @ ''/kWh).'',
           query_date = ''2024-01-15'' \<rparr>)
   \<and> (\<exists>hs. hs \<noteq> [] \<and> map format_hour hs = [''22:00'', ''23:00''])"
proof -
  from explanation_end_boundary [OF evening_run]
  obtain hs where "hs \<noteq> []"
    and "recommended_hours \<lparr> recommended_hours = [''22:00'', ''23:00''],
           average_price_eur_kwh = 1 / 10,
           total_cost_eur = 37 / 25,
           explanation = ''Recommended charging period: 22:00 to 24:00. ''
              @ ''With 14.8 kWh consumption, cost will be 1.48'' @ euro
              @ '' (average price: 0.1000'' @ euro @ ''/kWh).'',
           query_date = ''2024-01-15'' \<rparr> = map format_hour hs"
    by blast
  then have "\<exists>hs. hs \<noteq> [] \<and> map format_hour hs = [''22:00'', ''23:00'']"
    by (intro exI [of _ hs]) simp
  then show ?thesis using evening_run by (intro conjI)
qed

end
